theory Spec2Isabelle
  imports Complex_Main
begin

section \<open>Dispersion\_Functions.py: numbers, errors, and the list functions\<close>

text \<open>
  The module computes with Python and numpy floats. Finite floats are idealised as exact
  real numbers (no rounding, no overflow, no signed zero); every statement below is about
  that exact arithmetic. The raised exceptions are values of \<open>error\<close>.
\<close>

datatype error = IndexError | ZeroDivisionError | TypeError | ValueError

subsection \<open>portfolio\_weights\<close>

text \<open>
  \<^verbatim>\<open>return [x / sum(portfolio_values) for x in portfolio_values]\<close>

  The sum is evaluated once per element. On a Python list of floats the division raises
  ZeroDivisionError at the first element when the sum is zero; an empty list has no
  element to divide and gives the empty list.
\<close>

definition portfolio_weights :: "real list \<Rightarrow> error + real list" where
  "portfolio_weights portfolio_values =
     (if portfolio_values \<noteq> [] \<and> sum_list portfolio_values = 0 then Inl ZeroDivisionError
      else Inr (map (\<lambda>x. x / sum_list portfolio_values) portfolio_values))"

subsection \<open>weighted\_average\_return and dispersion\_calc\<close>

text \<open>
  \<^verbatim>\<open>return sum([x * y for x, y in zip(component_returns, weights)])\<close>

  \<open>zip\<close> stops at the shorter of the two sequences.
\<close>

definition weighted_average_return :: "real list \<Rightarrow> real list \<Rightarrow> real" where
  "weighted_average_return component_returns weights =
     sum_list (map (\<lambda>(x, y). x * y) (zip component_returns weights))"

text \<open>
  The result of \<^verbatim>\<open>s ** (0.5)\<close> on a Python float: the square root for \<open>s \<ge> 0\<close>, and
  for a negative \<open>s\<close> Python 3 returns a complex number, the principal root \<open>i\<surd>(-s)\<close>.
\<close>

datatype pynum = PyFloat real | PyComplex complex

definition pow_half :: "real \<Rightarrow> pynum" where
  "pow_half s = (if 0 \<le> s then PyFloat (sqrt s) else PyComplex (Complex 0 (sqrt (- s))))"

text \<open>
  \<^verbatim>\<open>
  if portfolio_return == None:
      portfolio_return = weighted_average_return(component_returns, weights)
  return (sum([y * ((x - portfolio_return) ** 2)
               for x, y in zip(component_returns, weights)])) ** (0.5)
  \<close>
  The optional override is a \<open>real option\<close>.
\<close>

definition dispersion_calc :: "real list \<Rightarrow> real list \<Rightarrow> real option \<Rightarrow> pynum" where
  "dispersion_calc component_returns weights portfolio_return =
     (let pr = (case portfolio_return of
                  None \<Rightarrow> weighted_average_return component_returns weights
                | Some r \<Rightarrow> r)
      in pow_half (sum_list (map (\<lambda>(x, y). y * (x - pr)\<^sup>2) (zip component_returns weights))))"

section \<open>Data frames\<close>

subsection \<open>Cells\<close>

text \<open>
  A numeric cell of a data frame is a float64: a finite value (an exact real here),
  an infinity, or NaN, which is pandas' marker of a missing value. numpy arithmetic
  does not raise: a nonzero value divided by zero is an infinity and \<open>0 / 0\<close> is NaN.
  Zero is taken as positive zero.
\<close>

datatype cell = Num real | PInf | NInf | NaN

fun inf_of :: "bool \<Rightarrow> cell" where
  "inf_of True = PInf"
| "inf_of False = NInf"

fun fneg :: "cell \<Rightarrow> cell" where
  "fneg (Num a) = Num (- a)"
| "fneg PInf = NInf"
| "fneg NInf = PInf"
| "fneg NaN = NaN"

fun fadd :: "cell \<Rightarrow> cell \<Rightarrow> cell" where
  "fadd (Num a) (Num b) = Num (a + b)"
| "fadd NaN _ = NaN"
| "fadd _ NaN = NaN"
| "fadd PInf NInf = NaN"
| "fadd NInf PInf = NaN"
| "fadd PInf _ = PInf"
| "fadd _ PInf = PInf"
| "fadd NInf _ = NInf"
| "fadd _ NInf = NInf"

definition fsub :: "cell \<Rightarrow> cell \<Rightarrow> cell" where
  "fsub a b = fadd a (fneg b)"

fun fmul :: "cell \<Rightarrow> cell \<Rightarrow> cell" where
  "fmul (Num a) (Num b) = Num (a * b)"
| "fmul NaN _ = NaN"
| "fmul _ NaN = NaN"
| "fmul PInf (Num b) = (if b = 0 then NaN else inf_of (0 < b))"
| "fmul NInf (Num b) = (if b = 0 then NaN else inf_of (b < 0))"
| "fmul (Num a) PInf = (if a = 0 then NaN else inf_of (0 < a))"
| "fmul (Num a) NInf = (if a = 0 then NaN else inf_of (a < 0))"
| "fmul PInf PInf = PInf"
| "fmul NInf NInf = PInf"
| "fmul PInf NInf = NInf"
| "fmul NInf PInf = NInf"

fun fdiv :: "cell \<Rightarrow> cell \<Rightarrow> cell" where
  "fdiv (Num a) (Num b) =
     (if b = 0 then (if a = 0 then NaN else inf_of (0 < a)) else Num (a / b))"
| "fdiv NaN _ = NaN"
| "fdiv _ NaN = NaN"
| "fdiv (Num a) _ = Num 0"
| "fdiv PInf (Num b) = inf_of (0 \<le> b)"
| "fdiv NInf (Num b) = inf_of (b < 0)"
| "fdiv _ _ = NaN"

text \<open>
  A cell of a frame of mixed columns is a float or a date (an index label of the price
  table, of any type \<open>'d\<close>). Arithmetic on a date raises TypeError.
\<close>

datatype 'd entry = Flt cell | Dat 'd

fun is_flt :: "'d entry \<Rightarrow> bool" where
  "is_flt (Flt _) = True"
| "is_flt (Dat _) = False"

fun the_flt :: "'d entry \<Rightarrow> cell" where
  "the_flt (Flt c) = c"
| "the_flt (Dat _) = NaN"

subsection \<open>Frames and the pandas operations the module calls\<close>

text \<open>
  A DataFrame: its row labels, its column labels, and its cells row by row. A frame is
  well formed when it has one row per index label, one cell per column in every row,
  and no column label twice.
\<close>

record ('i, 'a) frame =
  index :: "'i list"
  columns :: "string list"
  rows :: "'a list list"

definition wf_frame :: "('i, 'a) frame \<Rightarrow> bool" where
  "wf_frame df \<longleftrightarrow>
     length (rows df) = length (index df)
     \<and> list_all (\<lambda>r. length r = length (columns df)) (rows df)
     \<and> distinct (columns df)"

text \<open>
  \<^verbatim>\<open>fillna(method='pad')\<close>: a missing cell takes the last earlier value of its
  column; a missing cell with no earlier value stays missing.
\<close>

datatype fill_method = Pad | NoFill

fun ffill_from :: "cell list \<Rightarrow> cell list list \<Rightarrow> cell list list" where
  "ffill_from prev [] = []"
| "ffill_from prev (r # rs) =
     (let r' = map2 (\<lambda>p c. if c = NaN then p else c) prev r in r' # ffill_from r' rs)"

definition fillna :: "fill_method \<Rightarrow> ('i, cell) frame \<Rightarrow> ('i, cell) frame" where
  "fillna fm df =
     (case fm of
        NoFill \<Rightarrow> df
      | Pad \<Rightarrow> df\<lparr>rows := (case rows df of [] \<Rightarrow> [] | r # rs \<Rightarrow> r # ffill_from r rs)\<rparr>)"

text \<open>
  \<^verbatim>\<open>shift(periods)\<close>: the rows move down by \<open>periods\<close> (up when negative) under the
  same index; the rows that are vacated hold NaN.
\<close>

definition shift :: "int \<Rightarrow> ('i, cell) frame \<Rightarrow> ('i, cell) frame" where
  "shift periods df =
     (let n = length (rows df);
          k = min (nat \<bar>periods\<bar>) n;
          gap = replicate k (replicate (length (columns df)) NaN)
      in df\<lparr>rows := (if 0 \<le> periods then gap @ take (n - k) (rows df)
                      else drop k (rows df) @ gap)\<rparr>)"

text \<open>
  \<^verbatim>\<open>pct_change()\<close> as pandas defines it:
  \<^verbatim>\<open>
  data = self if fill_method is None else self.fillna(method=fill_method)
  rs = data / data.shift(periods=1) - 1
  \<close>
  The source calls it with no argument, so the fill method is the library's default:
  \<open>'pad'\<close> in every pandas release before 3.0 (among them all releases that still have
  \<^verbatim>\<open>DataFrame.append\<close>, which \<open>return_portfolio_values\<close> calls), and no filling from
  3.0 on. The default is a parameter of the model.
\<close>

definition pct_change :: "fill_method \<Rightarrow> ('i, cell) frame \<Rightarrow> ('i, cell) frame" where
  "pct_change fm df =
     (let data = fillna fm df;
          shifted = shift 1 data
      in data\<lparr>rows := map2 (map2 (\<lambda>x y. fsub (fdiv x y) (Num 1))) (rows data) (rows shifted)\<rparr>)"

text \<open>\<^verbatim>\<open>df.iloc[:-1]\<close>: all rows but the last.\<close>

definition iloc_drop_last :: "('i, 'a) frame \<Rightarrow> ('i, 'a) frame" where
  "iloc_drop_last df = df\<lparr>index := butlast (index df), rows := butlast (rows df)\<rparr>"

text \<open>A float frame seen as a frame of mixed columns.\<close>

definition as_entries :: "('i, cell) frame \<Rightarrow> ('i, 'd entry) frame" where
  "as_entries df = \<lparr>index = index df, columns = columns df, rows = map (map Flt) (rows df)\<rparr>"

text \<open>
  \<^verbatim>\<open>df[name] = vals\<close> for a sequence without labels: it raises ValueError unless there is
  one value per row; it overwrites the column called \<open>name\<close> where the frame has one and
  adds a new last column otherwise.
\<close>

definition setitem :: "string \<Rightarrow> 'a list \<Rightarrow> ('i, 'a) frame \<Rightarrow> error + ('i, 'a) frame" where
  "setitem name vals df =
     (if length vals \<noteq> length (index df) then Inl ValueError
      else if name \<in> set (columns df)
      then Inr (df\<lparr>rows := map2 (\<lambda>v r. map2 (\<lambda>c x. if c = name then v else x) (columns df) r)
                                vals (rows df)\<rparr>)
      else Inr (df\<lparr>columns := columns df @ [name],
                   rows := map2 (\<lambda>v r. r @ [v]) vals (rows df)\<rparr>))"

text \<open>
  The row that a frame with the column labels \<open>labels\<close> gets from a key-value list: the
  value stored under each label, and NaN for a label that is not a key.
\<close>

definition lookup_row :: "string list \<Rightarrow> (string \<times> 'd entry) list \<Rightarrow> 'd entry list" where
  "lookup_row labels kvs =
     map (\<lambda>c. case map_of kvs c of Some v \<Rightarrow> v | None \<Rightarrow> Flt NaN) labels"

text \<open>
  \<^verbatim>\<open>df.reindex(columns=new)\<close>: the columns are looked up by label. pandas returns the
  frame as it is when the labels are the ones it has, and otherwise refuses to reindex
  an axis with duplicate labels.
\<close>

definition reindex_columns ::
  "string list \<Rightarrow> ('i, 'd entry) frame \<Rightarrow> error + ('i, 'd entry) frame" where
  "reindex_columns new df =
     (if new = columns df then Inr df
      else if \<not> distinct (columns df) then Inl ValueError
      else Inr \<lparr>index = index df, columns = new,
                rows = map (\<lambda>r. lookup_row new (zip (columns df) r)) (rows df)\<rparr>)"

text \<open>
  \<^verbatim>\<open>values_df.append(new_data, ignore_index=True)\<close> with a dict \<open>new_data\<close> whose keys are
  column labels of the frame: one more row, holding the dict's value under each column
  and NaN where the dict has no key; the index is renumbered from 0. The dict is given as
  the key-value pairs in the order the comprehension stores them, a later pair
  overwriting an earlier one with the same key.
\<close>

definition df_append ::
  "(nat, 'd entry) frame \<Rightarrow> (string \<times> 'd entry) list \<Rightarrow> (nat, 'd entry) frame" where
  "df_append df new_data =
     df\<lparr>index := [0 ..< Suc (length (rows df))],
        rows := rows df @ [lookup_row (columns df) (rev new_data)]\<rparr>"

section \<open>Dispersion\_Functions.py: the functions on frames\<close>

subsection \<open>price\_df\_to\_returns\<close>

text \<open>
  \<^verbatim>\<open>
  returns = price_df.pct_change()
  end = returns.index[1:]
  returns = returns.shift(-1).iloc[:-1]
  returns['End'] = end
  returns = returns.reindex(columns=(list(returns.columns)[-1:] + list(returns.columns)[:-1]))
  return returns
  \<close>
\<close>

definition price_df_to_returns ::
  "fill_method \<Rightarrow> ('d, cell) frame \<Rightarrow> error + ('d, 'd entry) frame" where
  "price_df_to_returns fm price_df =
     (let returns = pct_change fm price_df;
          end = drop 1 (index returns);
          returns = iloc_drop_last (shift (- 1) returns)
      in case setitem ''End'' (map Dat end) (as_entries returns) of
           Inl e \<Rightarrow> Inl e
         | Inr returns \<Rightarrow>
             reindex_columns (drop (length (columns returns) - 1) (columns returns)
                                @ butlast (columns returns)) returns)"

subsection \<open>apply\_returns\<close>

text \<open>
  \<^verbatim>\<open>return [x * y for x, y in zip(starting_values, current_returns)]\<close>

  The elements are whatever the lists hold; the first product that involves a date
  raises.
\<close>

fun seq_list :: "(error + 'a) list \<Rightarrow> error + 'a list" where
  "seq_list [] = Inr []"
| "seq_list (Inl e # _) = Inl e"
| "seq_list (Inr x # rest) = (case seq_list rest of Inl e \<Rightarrow> Inl e | Inr xs \<Rightarrow> Inr (x # xs))"

fun emul :: "'d entry \<Rightarrow> 'd entry \<Rightarrow> error + 'd entry" where
  "emul (Flt a) (Flt b) = Inr (Flt (fmul a b))"
| "emul _ _ = Inl TypeError"

fun eadd1 :: "'d entry \<Rightarrow> error + 'd entry" where
  "eadd1 (Flt a) = Inr (Flt (fadd a (Num 1)))"
| "eadd1 (Dat _) = Inl TypeError"

definition apply_returns :: "'d entry list \<Rightarrow> 'd entry list \<Rightarrow> error + 'd entry list" where
  "apply_returns starting_values current_returns =
     seq_list (map (\<lambda>(x, y). emul x y) (zip starting_values current_returns))"

subsection \<open>return\_portfolio\_values\<close>

text \<open>
  The loop
  \<^verbatim>\<open>
  for index, row in returns.iterrows():
      ending_values = apply_returns(x, list(row[1:] + 1))
      x = ending_values
      values_to_add = [row[0]] + ending_values
      new_data = {x: y for x, y in zip(cols, values_to_add)}
      values_df = values_df.append(new_data, ignore_index=True)
  \<close>
  with its state \<open>x\<close> and \<open>values_df\<close>. The comprehension's \<open>x\<close> is local to it.
\<close>

fun rpv_loop ::
  "string list \<Rightarrow> 'd entry list \<Rightarrow> 'd entry list list \<Rightarrow> (nat, 'd entry) frame
     \<Rightarrow> error + (nat, 'd entry) frame" where
  "rpv_loop cols x [] values_df = Inr values_df"
| "rpv_loop cols x (row # rest) values_df =
     (case seq_list (map eadd1 (drop 1 row)) of
        Inl e \<Rightarrow> Inl e
      | Inr factors \<Rightarrow>
          (case apply_returns x factors of
             Inl e \<Rightarrow> Inl e
           | Inr ending_values \<Rightarrow>
               (case row of
                  [] \<Rightarrow> Inl IndexError
                | row0 # _ \<Rightarrow>
                    rpv_loop cols ending_values rest
                      (df_append values_df (zip cols (row0 # ending_values))))))"

text \<open>
  \<^verbatim>\<open>
  cols = returns.keys()
  starting_values.append(returns.index[0])
  starting_values = [starting_values[-1]] + starting_values[:-1]
  values_df = pd.DataFrame(columns=cols)
  new_data = {x: y for x, y in zip(cols, starting_values)}
  values_df = values_df.append(new_data, ignore_index=True)
  x = starting_values[1:]
  \<close>
  followed by the loop. \<open>starting_values\<close> is a Python list, passed by reference:
  \<open>append\<close> changes the caller's list, and the next line binds the local name to a new
  list. The function's result is paired with the caller's list as the call leaves it.
  \<open>returns.index[0]\<close> raises IndexError on a frame without rows, before the append.
\<close>

definition return_portfolio_values ::
  "'d entry list \<Rightarrow> ('d, 'd entry) frame
     \<Rightarrow> 'd entry list \<times> (error + (nat, 'd entry) frame)" where
  "return_portfolio_values starting_values returns =
     (let cols = columns returns in
      case index returns of
        [] \<Rightarrow> (starting_values, Inl IndexError)
      | d0 # _ \<Rightarrow>
          (let caller_list = starting_values @ [Dat d0];
               starting_values = last caller_list # butlast caller_list;
               values_df = \<lparr>index = [], columns = cols, rows = []\<rparr>;
               values_df = df_append values_df (zip cols starting_values);
               x = drop 1 starting_values
           in (caller_list, rpv_loop cols x (rows returns) values_df)))"

subsection \<open>calculate\_return\<close>

text \<open>
  \<^verbatim>\<open>
  return [(x / y) - 1 for x, y in
          zip(price_df[price_df.index == end_date].values,
              price_df[price_df.index == start_date].values)]
  \<close>
  The boolean mask selects the rows whose label is the date; the result is a list with
  one array of per-asset returns for each pair of selected rows.
\<close>

definition calculate_return :: "'d \<Rightarrow> 'd \<Rightarrow> ('d, cell) frame \<Rightarrow> cell list list" where
  "calculate_return start_date end_date price_df =
     (let sel = (\<lambda>d. map snd (filter (\<lambda>(i, r). i = d) (zip (index price_df) (rows price_df))))
      in map (\<lambda>(x, y). map (\<lambda>(a, b). fsub (fdiv a b) (Num 1)) (zip x y))
             (zip (sel end_date) (sel start_date)))"

section \<open>Notation for the statements\<close>

text \<open>
  The fractional change from \<open>y\<close> to \<open>x\<close>, and the table of the changes between
  consecutive rows, row \<open>i\<close> holding the change from row \<open>i\<close> to row \<open>i + 1\<close>.
\<close>

abbreviation pct :: "cell \<Rightarrow> cell \<Rightarrow> cell" where
  "pct x y \<equiv> fsub (fdiv x y) (Num 1)"

abbreviation pct_rows :: "cell list list \<Rightarrow> cell list list" where
  "pct_rows D \<equiv> map2 (map2 pct) (drop 1 D) D"

text \<open>The price table of the specification's scenario: assets A and B over three dates.\<close>

definition example_prices :: "(string, cell) frame" where
  "example_prices =
     \<lparr>index = [''d0'', ''d1'', ''d2''], columns = [''A'', ''B''],
      rows = [[Num 100, Num 50], [Num 105, Num 48], [Num 110, Num 52]]\<rparr>"

section \<open>Properties\<close>

subsection \<open>dispersion\_calc\<close>

lemma sum_list_weighted_squares:
  fixes ps :: "(real \<times> real) list"
  assumes "\<forall>(x, y) \<in> set ps. 0 \<le> y"
  shows "0 \<le> sum_list (map (\<lambda>(x, y). y * (x - m)\<^sup>2) ps)"
    and "sum_list (map (\<lambda>(x, y). y * (x - m)\<^sup>2) ps) = 0
           \<longleftrightarrow> (\<forall>(x, y) \<in> set ps. x = m \<or> y = 0)"
proof -
  have nn: "\<forall>t \<in> set (map (\<lambda>(x, y). y * (x - m)\<^sup>2) ps). 0 \<le> t"
    using assms by auto
  then show "0 \<le> sum_list (map (\<lambda>(x, y). y * (x - m)\<^sup>2) ps)"
    by (intro sum_list_nonneg) auto
  have "sum_list (map (\<lambda>(x, y). y * (x - m)\<^sup>2) ps) = 0
          \<longleftrightarrow> (\<forall>t \<in> set (map (\<lambda>(x, y). y * (x - m)\<^sup>2) ps). t = 0)"
    using nn by (intro sum_list_nonneg_eq_0_iff) auto
  also have "\<dots> \<longleftrightarrow> (\<forall>(x, y) \<in> set ps. x = m \<or> y = 0)"
    by auto
  finally show "sum_list (map (\<lambda>(x, y). y * (x - m)\<^sup>2) ps) = 0
                  \<longleftrightarrow> (\<forall>(x, y) \<in> set ps. x = m \<or> y = 0)" .
qed

text \<open>
  C5, as stated, fails for weights of mixed sign. With returns \<open>[3, 1]\<close> and weights
  \<open>[1, -1]\<close> the weighted average is 2 and the dispersion is 0, although the first
  return differs from 2 and has weight 1. With the single return 1 and weight \<open>-1\<close> the
  radicand is \<open>-4\<close> and the result is the complex number \<open>2i\<close>, not a non-negative real.
\<close>

theorem dispersion_calc_negative_weight_counterexample:
  "dispersion_calc [3, 1] [1, -1] None = PyFloat 0
     \<and> (3::real) \<noteq> weighted_average_return [3, 1] [1, -1] \<and> (1::real) \<noteq> 0
     \<and> dispersion_calc [1] [-1] None = PyComplex (Complex 0 2)"
  by (simp add: dispersion_calc_def pow_half_def weighted_average_return_def)

text \<open>
  C5, amended. When every weight that is paired with a component return is
  non-negative, \<open>dispersion_calc\<close> with no override is a non-negative real, and it is 0
  if and only if every paired component return equals the weighted-average portfolio
  return or has weight 0.
\<close>

theorem dispersion_calc_nonneg_weights:
  assumes "\<forall>(x, y) \<in> set (zip rs ws). 0 \<le> y"
  shows "\<exists>d. dispersion_calc rs ws None = PyFloat d \<and> 0 \<le> d
           \<and> (d = 0 \<longleftrightarrow>
                (\<forall>(x, y) \<in> set (zip rs ws). x = weighted_average_return rs ws \<or> y = 0))"
  using sum_list_weighted_squares [OF assms, of "weighted_average_return rs ws"]
  by (simp add: dispersion_calc_def pow_half_def)

theorem dispersion_calc_nonneg_weights_witness:
  "\<exists>d. dispersion_calc [3, 1] [1/2, 1/2] None = PyFloat d \<and> 0 \<le> d
     \<and> (d = 0 \<longleftrightarrow>
          (\<forall>(x, y) \<in> set (zip [3, 1] [1/2, 1/2 :: real]).
              x = weighted_average_return [3, 1] [1/2, 1/2] \<or> y = 0))"
  using dispersion_calc_nonneg_weights [of "[3, 1]" "[1/2, 1/2]"] by simp

subsection \<open>portfolio\_weights\<close>

lemma sum_list_divide_const:
  fixes xs :: "real list"
  shows "sum_list (map (\<lambda>x. x / s) xs) = sum_list xs / s"
  by (induction xs) (simp_all add: add_divide_distrib)

lemma sum_list_times_const:
  fixes xs :: "real list"
  shows "sum_list (map (\<lambda>x. x * c) xs) = sum_list xs * c"
  by (induction xs) (simp_all add: distrib_right)

text \<open>
  C7. For a sequence of position values whose sum is not zero (in particular for
  positive values, of which there is at least one), \<open>portfolio_weights\<close> returns a
  sequence of the same length, its element at position \<open>i\<close> is the input at \<open>i\<close> divided
  by the sum of all inputs, and the weights sum to exactly 1. Positivity of the single
  values is not needed beyond the nonzero sum.
\<close>

theorem portfolio_weights_normalised:
  assumes "sum_list xs \<noteq> 0"
  shows "\<exists>ws. portfolio_weights xs = Inr ws \<and> length ws = length xs
           \<and> (\<forall>i < length xs. ws ! i = xs ! i / sum_list xs) \<and> sum_list ws = 1"
proof -
  let ?ws = "map (\<lambda>x. x / sum_list xs) xs"
  have "portfolio_weights xs = Inr ?ws"
    using assms by (simp add: portfolio_weights_def)
  moreover have "sum_list ?ws = 1"
    using assms by (simp add: sum_list_divide_const)
  ultimately show ?thesis by simp
qed

theorem portfolio_weights_normalised_witness:
  "\<exists>ws. portfolio_weights [1, 3] = Inr ws \<and> length ws = length [1, 3 :: real]
     \<and> (\<forall>i < length [1, 3 :: real]. ws ! i = [1, 3] ! i / sum_list [1, 3]) \<and> sum_list ws = 1"
  using portfolio_weights_normalised [of "[1, 3]"] by simp

text \<open>
  C10. Scale invariance: multiplying every position value by the same nonzero scalar
  leaves the weights unchanged, exactly.
\<close>

theorem portfolio_weights_scale_invariant:
  assumes "c \<noteq> 0" and "sum_list xs \<noteq> 0"
  shows "portfolio_weights (map (\<lambda>x. x * c) xs) = portfolio_weights xs"
proof -
  have "xs \<noteq> []" using assms(2) by auto
  moreover have "sum_list (map (\<lambda>x. x * c) xs) \<noteq> 0"
    using assms by (simp add: sum_list_times_const)
  ultimately show ?thesis
    using assms by (simp add: portfolio_weights_def sum_list_times_const o_def)
qed

theorem portfolio_weights_scale_invariant_witness:
  "portfolio_weights (map (\<lambda>x. x * 5) [1, 3]) = portfolio_weights [1, 3]"
  using portfolio_weights_scale_invariant [of 5 "[1, 3]"] by simp

subsection \<open>The worked example of the specification\<close>

text \<open>
  C2. The price table \<open>[100, 110, 99]\<close> of one asset gives the return table
  \<open>[0.10, -0.10]\<close> with the start dates \<open>d0, d1\<close> and the End dates \<open>d1, d2\<close>, under either
  fill method; and \<open>return_portfolio_values\<close> applied to the initial value 100 and that
  return table gives back the value path \<open>[100, 110, 99]\<close>. In exact arithmetic the
  path is reproduced exactly.
\<close>

theorem price_returns_value_path_round_trip:
  "price_df_to_returns fm
      \<lparr>index = [''d0'', ''d1'', ''d2''], columns = [''A''],
       rows = [[Num 100], [Num 110], [Num 99]]\<rparr>
     = Inr \<lparr>index = [''d0'', ''d1''], columns = [''End'', ''A''],
            rows = [[Dat ''d1'', Flt (Num (1 / 10))], [Dat ''d2'', Flt (Num (- 1 / 10))]]\<rparr>
   \<and> snd (return_portfolio_values [Flt (Num 100)]
            \<lparr>index = [''d0'', ''d1''], columns = [''End'', ''A''],
             rows = [[Dat ''d1'', Flt (Num (1 / 10))], [Dat ''d2'', Flt (Num (- 1 / 10))]]\<rparr>)
     = Inr \<lparr>index = [0, 1, 2], columns = [''End'', ''A''],
            rows = [[Dat ''d0'', Flt (Num 100)], [Dat ''d1'', Flt (Num 110)],
                    [Dat ''d2'', Flt (Num 99)]]\<rparr>"
  by (cases fm)
     (simp_all add: price_df_to_returns_def pct_change_def fillna_def shift_def
        iloc_drop_last_def as_entries_def setitem_def reindex_columns_def lookup_row_def
        fsub_def return_portfolio_values_def df_append_def apply_returns_def)

text \<open>
  C3. \<open>return_portfolio_values\<close> does change the list it is given: after the call
  with the starting values \<open>[100]\<close> and the return table of the example, the caller's
  list is \<open>[100, d0]\<close>, the first start date having been appended to it.
\<close>

theorem return_portfolio_values_appends_to_argument:
  "fst (return_portfolio_values [Flt (Num 100)]
          \<lparr>index = [''d0'', ''d1''], columns = [''End'', ''A''],
           rows = [[Dat ''d1'', Flt (Num (1 / 10))], [Dat ''d2'', Flt (Num (- 1 / 10))]]\<rparr>)
     = [Flt (Num 100), Dat ''d0'']"
  by (simp add: return_portfolio_values_def Let_def)

subsection \<open>price\_df\_to\_returns: what the pipeline computes\<close>

lemma length_ffill_from: "length (ffill_from p rs) = length rs"
  by (induction rs arbitrary: p) (simp_all add: Let_def)

lemma ffill_from_row_lengths:
  "length p = n \<Longrightarrow> list_all (\<lambda>r. length r = n) rs
     \<Longrightarrow> list_all (\<lambda>r. length r = n) (ffill_from p rs)"
  by (induction rs arbitrary: p) (simp_all add: Let_def)

lemma index_fillna: "index (fillna fm df) = index df"
  by (cases fm) (simp_all add: fillna_def)

lemma columns_fillna: "columns (fillna fm df) = columns df"
  by (cases fm) (simp_all add: fillna_def)

lemma length_rows_fillna: "length (rows (fillna fm df)) = length (rows df)"
  by (cases fm) (simp_all add: fillna_def length_ffill_from split: list.splits)

lemma rows_fillna_lengths:
  "list_all (\<lambda>r. length r = n) (rows df) \<Longrightarrow> list_all (\<lambda>r. length r = n) (rows (fillna fm df))"
  by (cases fm) (auto simp: fillna_def ffill_from_row_lengths split: list.splits)

lemma zip_take_right: "zip xs (take (length xs) ys) = zip xs ys"
proof (induction xs arbitrary: ys)
  case Nil
  show ?case by simp
next
  case (Cons a xs)
  show ?case by (cases ys) (simp_all add: Cons.IH)
qed

lemma rows_shift_up_pct_change:
  "rows (iloc_drop_last (shift (- 1) (pct_change fm df))) = pct_rows (rows (fillna fm df))"
proof (cases "rows (fillna fm df)")
  case Nil
  then show ?thesis
    by (simp add: iloc_drop_last_def shift_def pct_change_def Let_def)
next
  case (Cons d ds)
  then show ?thesis
    by (simp add: iloc_drop_last_def shift_def pct_change_def Let_def zip_take_right
          butlast_conv_take)
qed

lemma index_shift_up_pct_change:
  "index (iloc_drop_last (shift (- 1) (pct_change fm df))) = butlast (index df)"
  by (simp add: iloc_drop_last_def shift_def pct_change_def Let_def index_fillna)

lemma columns_shift_up_pct_change:
  "columns (iloc_drop_last (shift (- 1) (pct_change fm df))) = columns df"
  by (simp add: iloc_drop_last_def shift_def pct_change_def Let_def columns_fillna)

lemma index_pct_change: "index (pct_change fm df) = index df"
  by (simp add: pct_change_def Let_def index_fillna)

lemma length_pct_rows: "length (pct_rows D) = length D - 1"
  by simp

lemma pct_rows_lengths:
  assumes "list_all (\<lambda>r. length r = n) D"
  shows "list_all (\<lambda>r. length r = n) (pct_rows D)"
proof -
  have "\<And>x y. (x, y) \<in> set (zip (drop 1 D) D) \<Longrightarrow> length x = n \<and> length y = n"
    using assms by (auto simp: list_all_iff dest: set_zip_leftD set_zip_rightD in_set_dropD)
  then show ?thesis
    by (auto simp: list_all_iff)
qed

lemma lookup_row_nth:
  assumes "distinct cs" and "length r = length cs" and "i < length cs"
  shows "(case map_of (zip cs r) (cs ! i) of Some v \<Rightarrow> v | None \<Rightarrow> d) = r ! i"
  using assms by (simp add: map_of_zip_nth)

lemma lookup_row_rotate:
  assumes "distinct (cs @ [l])" and "length r = length cs"
  shows "lookup_row (l # cs) (zip (cs @ [l]) (r @ [v])) = v # r"
proof -
  have len: "length (r @ [v]) = length (cs @ [l])" using assms by simp
  have "lookup_row (l # cs) (zip (cs @ [l]) (r @ [v])) ! i = (v # r) ! i"
    if "i < Suc (length cs)" for i
  proof (cases i)
    case 0
    have "map_of (zip (cs @ [l]) (r @ [v])) ((cs @ [l]) ! length cs) = Some ((r @ [v]) ! length cs)"
      using assms(1) len by (intro map_of_zip_nth) simp_all
    then show ?thesis using 0 assms(2) by (simp add: lookup_row_def nth_append)
  next
    case (Suc j)
    then have j: "j < length cs" using that by simp
    have "map_of (zip (cs @ [l]) (r @ [v])) ((cs @ [l]) ! j) = Some ((r @ [v]) ! j)"
      using assms(1) len j by (intro map_of_zip_nth) simp_all
    then show ?thesis using Suc j assms(2) by (simp add: lookup_row_def nth_append)
  qed
  then show ?thesis
    using assms(2) by (intro nth_equalityI) (simp_all add: lookup_row_def)
qed


lemma map2_cong_zip:
  "(\<And>x y. (x, y) \<in> set (zip xs ys) \<Longrightarrow> f x y = g x y) \<Longrightarrow> map2 f xs ys = map2 g xs ys"
  by auto

lemma map_map2_cong_zip:
  "(\<And>x y. (x, y) \<in> set (zip xs ys) \<Longrightarrow> h (f x y) = g x y)
     \<Longrightarrow> map h (map2 f xs ys) = map2 g xs ys"
  by auto

lemma setitem_new_column:
  "name \<notin> set cs \<Longrightarrow> length vals = length idx
     \<Longrightarrow> setitem name vals \<lparr>index = idx, columns = cs, rows = rs\<rparr>
           = Inr \<lparr>index = idx, columns = cs @ [name], rows = map2 (\<lambda>v r. r @ [v]) vals rs\<rparr>"
  by (simp add: setitem_def)

lemma setitem_new_column_rows:
  "map2 (\<lambda>v r. r @ [v]) (map Dat E) (map (map Flt) P)
     = map2 (\<lambda>e p. map Flt p @ [Dat e]) E P"
  by (simp add: zip_map1 zip_map2 case_prod_unfold)

lemma price_df_to_returns_eq:
  assumes wf: "wf_frame df" and no_end: "''End'' \<notin> set (columns df)"
  shows "price_df_to_returns fm df
           = Inr \<lparr>index = butlast (index df), columns = ''End'' # columns df,
                  rows = map2 (\<lambda>e r. Dat e # map Flt r) (drop 1 (index df))
                           (pct_rows (rows (fillna fm df)))\<rparr>"
proof -
  let ?cs = "columns df"
  let ?E = "drop 1 (index df)"
  let ?P = "pct_rows (rows (fillna fm df))"
  let ?R = "iloc_drop_last (shift (- 1) (pct_change fm df))"
  let ?S = "\<lparr>index = butlast (index df), columns = ?cs @ [''End''],
             rows = map2 (\<lambda>e p. map Flt p @ [Dat e]) ?E ?P\<rparr> :: ('a, 'a entry) frame"
  have lens: "list_all (\<lambda>r. length r = length ?cs) ?P"
    using wf by (intro pct_rows_lengths rows_fillna_lengths) (simp add: wf_frame_def)
  have ae: "as_entries ?R
              = (\<lparr>index = butlast (index df), columns = ?cs, rows = map (map Flt) ?P\<rparr>
                   :: ('a, 'a entry) frame)"
    unfolding as_entries_def rows_shift_up_pct_change index_shift_up_pct_change
      columns_shift_up_pct_change ..
  have set_ok: "setitem ''End'' (map Dat ?E) (as_entries ?R) = Inr ?S"
  proof -
    have "setitem ''End'' (map Dat ?E) (as_entries ?R)
            = Inr \<lparr>index = butlast (index df), columns = ?cs @ [''End''],
                   rows = map2 (\<lambda>v r. r @ [v]) (map Dat ?E) (map (map Flt) ?P)\<rparr>"
      unfolding ae using no_end by (intro setitem_new_column) simp_all
    then show ?thesis unfolding setitem_new_column_rows .
  qed
  have dist: "distinct (?cs @ [''End''])"
    using wf no_end by (simp add: wf_frame_def)
  have new: "drop (length (columns ?S) - 1) (columns ?S) @ butlast (columns ?S) = ''End'' # ?cs"
    by simp
  have row: "lookup_row (''End'' # ?cs) (zip (?cs @ [''End'']) (map Flt p @ [Dat e]))
               = Dat e # map Flt p"
    if "(e, p) \<in> set (zip ?E ?P)" for e p
  proof -
    have "p \<in> set ?P" using that by (rule set_zip_rightD)
    then have "length p = length ?cs"
      using lens unfolding list_all_iff by blast
    then have "length (map Flt p :: 'a entry list) = length ?cs"
      by simp
    with dist show ?thesis by (rule lookup_row_rotate)
  qed
  have rows_eq: "map (\<lambda>r. lookup_row (''End'' # ?cs) (zip (?cs @ [''End'']) r)) (rows ?S)
                   = map2 (\<lambda>e r. Dat e # map Flt r) ?E ?P"
    unfolding frame.simps by (rule map_map2_cong_zip) (rule row)
  have "reindex_columns (''End'' # ?cs) ?S
          = Inr \<lparr>index = butlast (index df), columns = ''End'' # ?cs,
                  rows = map2 (\<lambda>e r. Dat e # map Flt r) ?E ?P\<rparr>"
  proof (cases "?cs = []")
    case True
    have "map Flt p @ [Dat e] = Dat e # (map Flt p :: 'a entry list)"
      if "(e, p) \<in> set (zip ?E ?P)" for e p
    proof -
      have "p \<in> set ?P" using that by (rule set_zip_rightD)
      then have "length p = length ?cs"
        using lens unfolding list_all_iff by blast
      then show ?thesis using True by simp
    qed
    then have "map2 (\<lambda>e p. map Flt p @ [Dat e]) ?E ?P
                 = map2 (\<lambda>e r. Dat e # map Flt r) ?E ?P"
      by (rule map2_cong_zip)
    then show ?thesis using True by (simp add: reindex_columns_def)
  next
    case False
    then have "''End'' # ?cs \<noteq> ?cs @ [''End'']"
      using no_end by (cases ?cs) auto
    then show ?thesis
      using dist rows_eq by (simp add: reindex_columns_def)
  qed
  then show ?thesis
    unfolding price_df_to_returns_def Let_def index_pct_change set_ok
    using new by simp
qed


lemma nth_map2:
  "i < length xs \<Longrightarrow> i < length ys \<Longrightarrow> map2 f xs ys ! i = f (xs ! i) (ys ! i)"
  by simp

lemma pct_rows_nth:
  assumes "Suc i < length D"
  shows "pct_rows D ! i = map2 pct (D ! Suc i) (D ! i)"
proof -
  have "pct_rows D ! i = map2 pct (drop 1 D ! i) (D ! i)"
    using assms by (intro nth_map2) simp_all
  then show ?thesis using assms by simp
qed

lemma returns_rows_nth:
  assumes "length D = length idx" and "Suc i < length D"
  shows "map2 (\<lambda>e r. Dat e # map Flt r) (drop 1 idx) (pct_rows D) ! i
           = Dat (idx ! Suc i) # map Flt (map2 pct (D ! Suc i) (D ! i))"
proof -
  have "map2 (\<lambda>e r. Dat e # map Flt r) (drop 1 idx) (pct_rows D) ! i
          = Dat (drop 1 idx ! i) # map Flt (pct_rows D ! i)"
    using assms by (intro nth_map2) simp_all
  then show ?thesis
    using assms by (simp only: pct_rows_nth) simp
qed


subsection \<open>price\_df\_to\_returns: shape of the result\<close>

text \<open>
  C9. A well-formed price table with fewer than 2 rows gives a return table with no
  rows and no index labels, under either fill method.
\<close>

theorem price_df_to_returns_fewer_than_two_rows:
  assumes "wf_frame df" and "length (rows df) < 2"
  shows "\<exists>rt. price_df_to_returns fm df = Inr rt \<and> rows rt = [] \<and> index rt = []"
proof -
  let ?R = "iloc_drop_last (shift (- 1) (pct_change fm df))"
  have len: "length (index df) < 2" using assms by (simp add: wf_frame_def)
  have "length (pct_rows (rows (fillna fm df))) = 0"
    using assms(2) by (simp add: length_rows_fillna)
  then have P: "pct_rows (rows (fillna fm df)) = []" by (rule length_0_conv[THEN iffD1])
  have I: "butlast (index df) = []" "drop 1 (index df) = []"
    using len by (cases "index df"; simp)+
  have ae: "as_entries ?R = (\<lparr>index = [], columns = columns df, rows = []\<rparr> :: ('a, 'a entry) frame)"
    unfolding as_entries_def rows_shift_up_pct_change index_shift_up_pct_change
      columns_shift_up_pct_change P I by simp
  show ?thesis
    unfolding price_df_to_returns_def Let_def index_pct_change ae I
    using assms(1)
    by (simp add: setitem_def reindex_columns_def wf_frame_def)
qed

theorem price_df_to_returns_fewer_than_two_rows_witness:
  "wf_frame \<lparr>index = [''d0''], columns = [''A''], rows = [[Num 100]]\<rparr>
   \<and> length (rows \<lparr>index = [''d0''], columns = [''A''], rows = [[Num 100]]\<rparr>) < 2
   \<and> (\<exists>rt. price_df_to_returns Pad \<lparr>index = [''d0''], columns = [''A''], rows = [[Num 100]]\<rparr> = Inr rt
          \<and> rows rt = [] \<and> index rt = [])"
proof -
  have h: "wf_frame \<lparr>index = [''d0''], columns = [''A''], rows = [[Num 100]]\<rparr>"
    "length (rows \<lparr>index = [''d0''], columns = [''A''], rows = [[Num 100]]\<rparr>) < 2"
    by (simp_all add: wf_frame_def)
  show ?thesis using h price_df_to_returns_fewer_than_two_rows [OF h, of Pad] by (intro conjI)
qed


text \<open>
  C4, as stated, fails for a price table that has an asset column called \<open>End\<close>: the
  assignment \<^verbatim>\<open>returns['End'] = end\<close> then overwrites that asset's returns with the
  dates and adds no column, and the reindexing moves whatever column was last to the
  front. For the columns \<open>End, A\<close> the result has the columns \<open>A, End\<close>.
\<close>

theorem price_df_to_returns_end_column_counterexample:
  "price_df_to_returns Pad
      \<lparr>index = [''d0'', ''d1''], columns = [''End'', ''A''],
       rows = [[Num 1, Num 2], [Num 3, Num 4]]\<rparr>
     = Inr \<lparr>index = [''d0''], columns = [''A'', ''End''],
            rows = [[Flt (Num 1), Dat ''d1'']]\<rparr>"
  by (simp add: price_df_to_returns_def pct_change_def fillna_def shift_def iloc_drop_last_def
      as_entries_def setitem_def reindex_columns_def lookup_row_def fsub_def)


text \<open>
  C4, amended. For a well-formed price table with at least 2 rows and no column called
  \<open>End\<close>, the return table has one row fewer than the price table and as many index
  labels as rows; its columns are \<open>End\<close> followed by the price table's columns in
  their order; row \<open>i\<close> is labelled with the price table's date at position \<open>i\<close>,
  holds the date at position \<open>i + 1\<close> in its first cell, and a float in the cell of
  every asset.
\<close>

theorem price_df_to_returns_shape:
  assumes "wf_frame df" and "''End'' \<notin> set (columns df)" and "2 \<le> length (rows df)"
  shows "\<exists>rt. price_df_to_returns fm df = Inr rt
           \<and> length (rows rt) = length (rows df) - 1
           \<and> length (index rt) = length (rows rt)
           \<and> columns rt = ''End'' # columns df
           \<and> (\<forall>i < length (rows rt).
                 index rt ! i = index df ! i
                 \<and> length (rows rt ! i) = Suc (length (columns df))
                 \<and> rows rt ! i ! 0 = Dat (index df ! Suc i)
                 \<and> (\<forall>k < length (columns df). is_flt (rows rt ! i ! Suc k)))"
proof -
  let ?D = "rows (fillna fm df)"
  let ?rt = "\<lparr>index = butlast (index df), columns = ''End'' # columns df,
              rows = map2 (\<lambda>e r. Dat e # map Flt r) (drop 1 (index df)) (pct_rows ?D)\<rparr>"
  have eq: "price_df_to_returns fm df = Inr ?rt"
    using assms(1,2) by (rule price_df_to_returns_eq)
  have lenD: "length ?D = length (index df)"
    using assms(1) by (simp add: length_rows_fillna wf_frame_def)
  have lenR: "length (rows ?rt) = length (rows df) - 1"
    using assms(1) lenD by (simp add: wf_frame_def)
  have widths: "list_all (\<lambda>r. length r = length (columns df)) ?D"
    using assms(1) by (intro rows_fillna_lengths) (simp add: wf_frame_def)
  have row: "index ?rt ! i = index df ! i
             \<and> length (rows ?rt ! i) = Suc (length (columns df))
             \<and> rows ?rt ! i ! 0 = Dat (index df ! Suc i)
             \<and> (\<forall>k < length (columns df). is_flt (rows ?rt ! i ! Suc k))"
    if "i < length (rows ?rt)" for i
  proof -
    have "i < length (pct_rows ?D)" using that by simp
    then have i: "Suc i < length ?D" by simp
    have r: "rows ?rt ! i = Dat (index df ! Suc i) # map Flt (map2 pct (?D ! Suc i) (?D ! i))"
      unfolding frame.simps using lenD i by (rule returns_rows_nth)
    have "length (?D ! Suc i) = length (columns df)" "length (?D ! i) = length (columns df)"
      using widths i by (simp_all add: list_all_length)
    then have w: "length (map2 pct (?D ! Suc i) (?D ! i)) = length (columns df)"
      by simp
    have "index ?rt ! i = index df ! i"
      using i lenD by (simp add: nth_butlast)
    then show ?thesis
      unfolding r using w by simp
  qed
  have lenI: "length (index ?rt) = length (rows ?rt)"
    using lenD by simp
  have cols: "columns ?rt = ''End'' # columns df" by simp
  from eq lenR lenI cols row show ?thesis by blast
qed

theorem price_df_to_returns_shape_witness:
  "wf_frame example_prices \<and> ''End'' \<notin> set (columns example_prices)
   \<and> 2 \<le> length (rows example_prices)
   \<and> (\<exists>rt. price_df_to_returns Pad example_prices = Inr rt
           \<and> length (rows rt) = length (rows example_prices) - 1
           \<and> length (index rt) = length (rows rt)
           \<and> columns rt = ''End'' # columns example_prices
           \<and> (\<forall>i < length (rows rt).
                 index rt ! i = index example_prices ! i
                 \<and> length (rows rt ! i) = Suc (length (columns example_prices))
                 \<and> rows rt ! i ! 0 = Dat (index example_prices ! Suc i)
                 \<and> (\<forall>k < length (columns example_prices). is_flt (rows rt ! i ! Suc k))))"
proof -
  have h: "wf_frame example_prices" "''End'' \<notin> set (columns example_prices)"
    "2 \<le> length (rows example_prices)"
    by (simp_all add: example_prices_def wf_frame_def)
  show ?thesis using h price_df_to_returns_shape [OF h, of Pad] by (intro conjI)
qed

end
